theory Spec2Isabelle
  imports Complex_Main "HOL-Library.Multiset"
begin

section \<open>Values, exceptions and the observable state\<close>

text \<open>
  The dashboard (\<^verbatim>\<open>dashboard.py\<close>) fetches quotes for a fixed catalog of symbols, caches
  each symbol's previous close in the module-level dictionary \<^verbatim>\<open>prev_close_cache\<close>, and
  renders the quotes as tables in an endless loop.

  Python floats are idealised as \<^typ>\<open>real\<close> (no NaN, no infinities, no binary rounding);
  \<^verbatim>\<open>None\<close> is \<open>None\<close> of an option type.  A quote is the pair
  \<^verbatim>\<open>(current_price, change_percent)\<close> that \<^verbatim>\<open>fetch_single_price\<close> returns.
\<close>

type_synonym quote = "real option \<times> real option"

text \<open>
  The exceptions that can travel through the code.  \<open>TimeoutError\<close> is
  \<^verbatim>\<open>asyncio.TimeoutError\<close>; \<open>Exception\<close> stands for any other subclass of Python's
  \<^verbatim>\<open>Exception\<close> raised by the quote source (network, parsing, unknown symbol), carrying its
  message.
\<close>

datatype py_exc =
    TimeoutError
  | KeyError string
  | ValueError string
  | TypeError string
  | Exception string

fun exc_str :: "py_exc \<Rightarrow> string" where
  "exc_str TimeoutError = ''''"
| "exc_str (KeyError k) = [CHR 0x27] @ k @ [CHR 0x27]"
| "exc_str (ValueError m) = m"
| "exc_str (TypeError m) = m"
| "exc_str (Exception m) = m"

text \<open>
  One row of the list \<^verbatim>\<open>formatted_data\<close> built by \<^verbatim>\<open>create_dataframe\<close>: a dictionary with
  the three keys "asset", "current price (USD)" and "change rate (%)" (Korean in the
  source).  The table handed to Streamlit is \<^verbatim>\<open>df.to_html(...)\<close> of these rows; pandas is
  external, so the HTML table is represented by its rows.
\<close>

record row =
  asset :: string
  current_price_usd :: string
  change_rate_pct :: string

datatype html = Styled_table "row list" | Text string

text \<open>
  Effects are recorded in a trace, in the order in which they happen: a query of the
  quote source for a symbol (\<^verbatim>\<open>yf.Ticker(ticker)\<close> and its \<^verbatim>\<open>history\<close>), a line printed to
  standard output, a \<^verbatim>\<open>placeholders[key].markdown(...)\<close> call, and \<^verbatim>\<open>asyncio.sleep(d)\<close>.
\<close>

datatype event =
    Query string
  | Print string
  | Markdown string html
  | Sleep nat

record state =
  prev_close_cache :: "string \<rightharpoonup> real option"
  trace :: "event list"

definition emit :: "event \<Rightarrow> state \<Rightarrow> state" where
  "emit ev s = s\<lparr>trace := trace s @ [ev]\<rparr>"

text \<open>
  What the quote source answers for one symbol: the \<^verbatim>\<open>Close\<close> column of
  \<^verbatim>\<open>history(period="1d")\<close> (empty list: empty frame) and \<^verbatim>\<open>info.get("previousClose", None)\<close>,
  each of which may raise instead.  A reply \<open>Inl TimeoutError\<close> stands for the deadline of
  \<^verbatim>\<open>asyncio.wait_for\<close> expiring during that call.
\<close>

record source_reply =
  history_Close :: "py_exc + real list"
  info_previousClose :: "py_exc + real option"

section \<open>Python primitives\<close>

text \<open>Truth value of an optional float: \<^verbatim>\<open>None\<close> and \<^verbatim>\<open>0.0\<close> are false.\<close>

fun truthy :: "real option \<Rightarrow> bool" where
  "truthy None = False"
| "truthy (Some x) = (x \<noteq> 0)"

text \<open>\<^verbatim>\<open>round(x, ndigits)\<close>: to the nearest multiple of \<open>10\<^sup>-\<^sup>n\<close>, ties to even.\<close>

definition round_half_even :: "real \<Rightarrow> int" where
  "round_half_even x =
     (let f = \<lfloor>x\<rfloor>; d = x - of_int f in
      if d < 1 / 2 then f else if 1 / 2 < d then f + 1 else if even f then f else f + 1)"

definition py_round :: "real \<Rightarrow> nat \<Rightarrow> real" where
  "py_round x ndigits = of_int (round_half_even (x * 10 ^ ndigits)) / 10 ^ ndigits"

text \<open>
  \<^verbatim>\<open>range(start, stop, step)\<close> as the list of its elements; a zero step raises
  \<^verbatim>\<open>ValueError\<close>.  The lengths are those CPython computes.
\<close>

definition py_range :: "int \<Rightarrow> int \<Rightarrow> int \<Rightarrow> py_exc + int list" where
  "py_range start stop step =
     (if step = 0 then Inl (ValueError ''range() arg 3 must not be zero'')
      else if 0 < step then
        Inr (map (\<lambda>k. start + int k * step) [0 ..< nat ((stop - start + step - 1) div step)])
      else
        Inr (map (\<lambda>k. start + int k * step) [0 ..< nat ((start - stop - step - 1) div (- step))]))"

text \<open>
  The slice \<^verbatim>\<open>xs[i:j]\<close>: a negative bound counts from the end, and both bounds are
  clamped to the list.
\<close>

definition slice_bound :: "nat \<Rightarrow> int \<Rightarrow> nat" where
  "slice_bound n k = (if k < 0 then nat (max 0 (k + int n)) else min (nat k) n)"

definition py_slice :: "'a list \<Rightarrow> int \<Rightarrow> int \<Rightarrow> 'a list" where
  "py_slice xs i j =
     (let lo = slice_bound (length xs) i; hi = slice_bound (length xs) j
      in take (hi - lo) (drop lo xs))"

section \<open>Fetching one symbol\<close>

text \<open>
  The inner coroutine \<^verbatim>\<open>fetch_data\<close> of \<^verbatim>\<open>fetch_single_price\<close>.  Its body has no
  \<^verbatim>\<open>await\<close>, so it runs without interleaving.  The previous close is looked up in the
  quote source only when the symbol is not yet a key of the cache, and the answer (also
  \<^verbatim>\<open>None\<close>) is stored; an exception of that lookup leaves the cache as it was.
\<close>

definition fetch_data :: "source_reply \<Rightarrow> string \<Rightarrow> state \<Rightarrow> (py_exc + quote) \<times> state" where
  "fetch_data src ticker s =
     (let s0 = emit (Query ticker) s in
      case history_Close src of
        Inl e \<Rightarrow> (Inl e, s0)
      | Inr history \<Rightarrow>
          (case (if prev_close_cache s0 ticker = None
                 then (case info_previousClose src of
                         Inl e \<Rightarrow> Inl e
                       | Inr v \<Rightarrow> Inr (s0\<lparr>prev_close_cache := (prev_close_cache s0)(ticker \<mapsto> v)\<rparr>))
                 else Inr s0) of
             Inl e \<Rightarrow> (Inl e, s0)
           | Inr s1 \<Rightarrow>
               (case prev_close_cache s1 ticker of
                  None \<Rightarrow> (Inl (KeyError ticker), s1)
                | Some prev_close \<Rightarrow>
                    if history \<noteq> [] then
                      (let current_price = last history;
                           change_percent =
                             (if truthy prev_close
                              then Some (py_round
                                     (((current_price - the prev_close) / the prev_close) * 100) 2)
                              else None)
                       in (Inr (Some current_price, change_percent), s1))
                    else (Inr (None, None), s1))))"

text \<open>
  \<^verbatim>\<open>asyncio.wait_for(aw, timeout)\<close>: with a non-positive timeout the awaitable is cancelled
  before it runs and \<^verbatim>\<open>TimeoutError\<close> is raised; otherwise the awaitable runs (and a deadline
  that expires inside it shows as a \<open>TimeoutError\<close> of the call that was pending).
\<close>

definition wait_for ::
  "(state \<Rightarrow> (py_exc + 'a) \<times> state) \<Rightarrow> int \<Rightarrow> state \<Rightarrow> (py_exc + 'a) \<times> state" where
  "wait_for aw timeout s = (if timeout \<le> 0 then (Inl TimeoutError, s) else aw s)"

text \<open>
  \<^verbatim>\<open>fetch_single_price(ticker, timeout=10)\<close>: the two \<^verbatim>\<open>except\<close> clauses print a line and
  fall through to \<^verbatim>\<open>return None, None\<close>.
\<close>

definition fetch_single_price ::
  "source_reply \<Rightarrow> string \<Rightarrow> int \<Rightarrow> state \<Rightarrow> (py_exc + quote) \<times> state" where
  "fetch_single_price src ticker timeout s =
     (case wait_for (fetch_data src ticker) timeout s of
        (Inr q, s') \<Rightarrow> (Inr q, s')
      | (Inl TimeoutError, s') \<Rightarrow>
          (Inr (None, None), emit (Print (''Timeout fetching data for '' @ ticker)) s')
      | (Inl e, s') \<Rightarrow>
          (Inr (None, None),
           emit (Print (''Error fetching data for '' @ ticker @ '': '' @ exc_str e)) s'))"

section \<open>Fetching a group in batches\<close>

text \<open>
  \<^verbatim>\<open>asyncio.gather(*tasks)\<close>: the tasks run in the order in which they complete, given by
  a rank \<open>finish k\<close> for the \<open>k\<close>-th task (ties: the earlier task first), each on the state
  its predecessors left; the result list is in the order of the arguments.  An exception
  of a task is raised by \<^verbatim>\<open>gather\<close>.
\<close>

fun run_tasks ::
  "(state \<Rightarrow> (py_exc + 'a) \<times> state) list \<Rightarrow> nat list \<Rightarrow> state \<Rightarrow>
     (py_exc + (nat \<times> 'a) list) \<times> state" where
  "run_tasks tasks [] s = (Inr [], s)"
| "run_tasks tasks (k # ks) s =
     (case (tasks ! k) s of
        (Inl e, s') \<Rightarrow> (Inl e, s')
      | (Inr r, s') \<Rightarrow>
          (case run_tasks tasks ks s' of
             (Inl e, s'') \<Rightarrow> (Inl e, s'')
           | (Inr rs, s'') \<Rightarrow> (Inr ((k, r) # rs), s'')))"

definition gather ::
  "(nat \<Rightarrow> nat) \<Rightarrow> (state \<Rightarrow> (py_exc + 'a) \<times> state) list \<Rightarrow> state \<Rightarrow>
     (py_exc + 'a list) \<times> state" where
  "gather finish tasks s =
     (case run_tasks tasks (sort_key finish [0 ..< length tasks]) s of
        (Inl e, s') \<Rightarrow> (Inl e, s')
      | (Inr finished, s') \<Rightarrow> (Inr (map snd (sort_key fst finished)), s'))"

text \<open>
  The surroundings of one call of \<^verbatim>\<open>fetch_all_prices\<close>: what the quote source answers for
  each symbol while the call runs, and, for the batch that starts at index \<open>i\<close>, the rank
  at which its \<open>k\<close>-th fetch completes.
\<close>

record world =
  quote_source :: "string \<Rightarrow> source_reply"
  completion :: "int \<Rightarrow> nat \<Rightarrow> nat"

text \<open>
  The body of the \<^verbatim>\<open>for i in range(0, len(tickers), batch_size)\<close> loop of
  \<^verbatim>\<open>fetch_all_prices\<close>, over the elements of the range.
\<close>

fun fetch_batches ::
  "world \<Rightarrow> string list \<Rightarrow> int \<Rightarrow> int list \<Rightarrow> quote list \<Rightarrow> state \<Rightarrow>
     (py_exc + quote list) \<times> state" where
  "fetch_batches w tickers batch_size [] results s = (Inr results, s)"
| "fetch_batches w tickers batch_size (i # is) results s =
     (let batch = py_slice tickers i (i + batch_size);
          tasks = map (\<lambda>ticker. fetch_single_price (quote_source w ticker) ticker 10) batch
      in case gather (completion w i) tasks s of
           (Inl e, s') \<Rightarrow> (Inl e, s')
         | (Inr rs, s') \<Rightarrow> fetch_batches w tickers batch_size is (results @ rs) s')"

text \<open>
  \<^verbatim>\<open>fetch_all_prices(assets, batch_size=5)\<close>.  The dictionary \<open>assets\<close> is the list of its
  items in insertion order; \<^verbatim>\<open>list(assets.values())\<close> is their second components.
\<close>

definition fetch_all_prices ::
  "world \<Rightarrow> (string \<times> string) list \<Rightarrow> int \<Rightarrow> state \<Rightarrow> (py_exc + quote list) \<times> state" where
  "fetch_all_prices w assets batch_size s =
     (let tickers = map snd assets in
      case py_range 0 (int (length tickers)) batch_size of
        Inl e \<Rightarrow> (Inl e, s)
      | Inr indices \<Rightarrow> fetch_batches w tickers batch_size indices [] s)"

section \<open>Rendering\<close>

text \<open>Decimal digits of a natural number, and the format \<^verbatim>\<open>{x:.nf}\<close> of a float.\<close>

fun show_nat :: "nat \<Rightarrow> string" where
  "show_nat n =
     (if n < 10 then [''0123456789'' ! n]
      else show_nat (n div 10) @ [''0123456789'' ! (n mod 10)])"

declare show_nat.simps [simp del]

definition format_fixed :: "real \<Rightarrow> nat \<Rightarrow> string" where
  "format_fixed x n =
     (let m = nat (round_half_even (\<bar>x\<bar> * 10 ^ n));
          frac = show_nat (m mod 10 ^ n)
      in (if x < 0 then ''-'' else []) @ show_nat (m div 10 ^ n) @
         (if n = 0 then [] else ''.'' @ replicate (n - length frac) CHR ''0'' @ frac))"

text \<open>The fallback text of a cell, "no data" in Korean, as its UTF-8 bytes.\<close>

definition no_data :: string where
  "no_data = [CHR 0xEB, CHR 0x8D, CHR 0xB0, CHR 0xEC, CHR 0x9D, CHR 0xB4, CHR 0xED, CHR 0x84,
     CHR 0xB0, CHR 0x20, CHR 0xEC, CHR 0x97, CHR 0x86, CHR 0xEC, CHR 0x9D, CHR 0x8C]"

definition span_red :: "string \<Rightarrow> string" where
  "span_red body =
     ''<span style='color:red; text-align:right; padding-right:10px;'>'' @ body @ ''</span>''"

definition span_blue :: "string \<Rightarrow> string" where
  "span_blue body =
     ''<span style='color:#4682B4; text-align:right; padding-right:10px;'>'' @ body @ ''</span>''"

definition span_plain :: "string \<Rightarrow> string" where
  "span_plain body =
     ''<span style='text-align:right; padding-right:10px;'>'' @ body @ ''</span>''"

text \<open>
  \<^verbatim>\<open>{price:.nf}\<close> inside an f-string: formatting \<^verbatim>\<open>None\<close> with a float format raises
  \<^verbatim>\<open>TypeError\<close>.
\<close>

definition format_opt :: "real option \<Rightarrow> nat \<Rightarrow> py_exc + string" where
  "format_opt x n =
     (case x of
        None \<Rightarrow> Inl (TypeError ''unsupported format string passed to NoneType.__format__'')
      | Some v \<Rightarrow> Inr (format_fixed v n))"

text \<open>
  The two conditional expressions of a row.  \<^verbatim>\<open>change and change > 0\<close> is false for
  \<^verbatim>\<open>None\<close> and for \<^verbatim>\<open>0.0\<close>.  \<open>digits\<close> is 2 in \<^verbatim>\<open>create_dataframe\<close> and 4 in
  \<^verbatim>\<open>create_crypto_dataframe\<close>; the change is always formatted with two digits.
\<close>

definition price_cell :: "nat \<Rightarrow> quote \<Rightarrow> py_exc + string" where
  "price_cell digits q =
     (case q of (price, change) \<Rightarrow>
        if truthy change \<and> the change > 0 then map_sum id span_red (format_opt price digits)
        else if truthy change \<and> the change < 0 then map_sum id span_blue (format_opt price digits)
        else if price \<noteq> None then map_sum id span_plain (format_opt price digits)
        else Inr no_data)"

definition change_cell :: "quote \<Rightarrow> py_exc + string" where
  "change_cell q =
     (case q of (price, change) \<Rightarrow>
        if truthy change \<and> the change > 0
        then map_sum id (\<lambda>body. span_red (body @ ''%'')) (format_opt change 2)
        else if truthy change \<and> the change < 0
        then map_sum id (\<lambda>body. span_blue (body @ ''%'')) (format_opt change 2)
        else Inr no_data)"

definition format_row :: "nat \<Rightarrow> string \<Rightarrow> quote \<Rightarrow> py_exc + row" where
  "format_row digits name q =
     (case price_cell digits q of
        Inl e \<Rightarrow> Inl e
      | Inr p \<Rightarrow>
          (case change_cell q of
             Inl e \<Rightarrow> Inl e
           | Inr c \<Rightarrow> Inr \<lparr>asset = name, current_price_usd = p, change_rate_pct = c\<rparr>))"

text \<open>
  The list comprehension over \<^verbatim>\<open>zip(asset_names, data)\<close>: the rows in order, up to the
  shorter of the two lists; the first row that raises ends it.
\<close>

fun format_rows :: "nat \<Rightarrow> (string \<times> quote) list \<Rightarrow> py_exc + row list" where
  "format_rows digits [] = Inr []"
| "format_rows digits ((name, q) # rest) =
     (case format_row digits name q of
        Inl e \<Rightarrow> Inl e
      | Inr r \<Rightarrow>
          (case format_rows digits rest of
             Inl e \<Rightarrow> Inl e
           | Inr rs \<Rightarrow> Inr (r # rs)))"

definition create_dataframe :: "quote list \<Rightarrow> string list \<Rightarrow> py_exc + html" where
  "create_dataframe data asset_names =
     map_sum id Styled_table (format_rows 2 (zip asset_names data))"

definition create_crypto_dataframe :: "quote list \<Rightarrow> string list \<Rightarrow> py_exc + html" where
  "create_crypto_dataframe data asset_names =
     map_sum id Styled_table (format_rows 4 (zip asset_names data))"

section \<open>The catalog\<close>

text \<open>
  The six dictionaries of the module, as their items in insertion order.  The display
  names are Korean in the source; they are given here as their UTF-8 bytes.
\<close>

definition commodities :: "(string \<times> string) list" where
  "commodities =
    [([CHR 0xEA, CHR 0xB8, CHR 0x88],
      ''GC=F''),
     ([CHR 0xEC, CHR 0x9B, CHR 0x90, CHR 0xEC, CHR 0x9C, CHR 0xA0],
      ''CL=F''),
     ([CHR 0xEC, CHR 0xB2, CHR 0x9C, CHR 0xEC, CHR 0x97, CHR 0xB0, CHR 0xEA, CHR 0xB0,
       CHR 0x80, CHR 0xEC, CHR 0x8A, CHR 0xA4],
      ''NG=F''),
     ([CHR 0xEC, CHR 0x9D, CHR 0x80],
      ''SI=F''),
     ([CHR 0xEA, CHR 0xB5, CHR 0xAC, CHR 0xEB, CHR 0xA6, CHR 0xAC],
      ''HG=F''),
     ([CHR 0xEB, CHR 0xB0, CHR 0xB1, CHR 0xEA, CHR 0xB8, CHR 0x88],
      ''PL=F''),
     ([CHR 0xEC, CHR 0x98, CHR 0xA5, CHR 0xEC, CHR 0x88, CHR 0x98, CHR 0xEC, CHR 0x88,
       CHR 0x98],
      ''ZC=F''),
     ([CHR 0xEB, CHR 0x8C, CHR 0x80, CHR 0xEB, CHR 0x91, CHR 0x90],
      ''ZS=F''),
     ([CHR 0xEB, CHR 0xB0, CHR 0x80],
      ''ZW=F'')]"

definition indices_spot :: "(string \<times> string) list" where
  "indices_spot =
    [([CHR 0xEB, CHR 0x82, CHR 0x98, CHR 0xEC, CHR 0x8A, CHR 0xA4, CHR 0xEB, CHR 0x8B,
       CHR 0xA5, CHR 0x20, CHR 0x28, CHR 0xED, CHR 0x98, CHR 0x84, CHR 0xEB, CHR 0xAC,
       CHR 0xBC, CHR 0x29],
      ''^IXIC''),
     ([CHR 0xEB, CHR 0x8B, CHR 0xA4, CHR 0xEC, CHR 0x9A, CHR 0xB0, CHR 0xEC, CHR 0xA1,
       CHR 0xB4, CHR 0xEC, CHR 0x8A, CHR 0xA4, CHR 0x20, CHR 0x28, CHR 0xED, CHR 0x98,
       CHR 0x84, CHR 0xEB, CHR 0xAC, CHR 0xBC, CHR 0x29],
      ''^DJI''),
     ([CHR 0x53, CHR 0x26, CHR 0x50, CHR 0x20, CHR 0x35, CHR 0x30, CHR 0x30, CHR 0x20,
       CHR 0x28, CHR 0xED, CHR 0x98, CHR 0x84, CHR 0xEB, CHR 0xAC, CHR 0xBC, CHR 0x29],
      ''^GSPC''),
     ([CHR 0xEB, CHR 0x8B, CHR 0x88, CHR 0xEC, CHR 0xBC, CHR 0x80, CHR 0xEC, CHR 0x9D,
       CHR 0xB4, CHR 0x20, CHR 0x32, CHR 0x32, CHR 0x35, CHR 0x20, CHR 0x28, CHR 0xED,
       CHR 0x98, CHR 0x84, CHR 0xEB, CHR 0xAC, CHR 0xBC, CHR 0x29],
      ''^N225''),
     ([CHR 0x46, CHR 0x54, CHR 0x53, CHR 0x45, CHR 0x20, CHR 0x31, CHR 0x30, CHR 0x30,
       CHR 0x20, CHR 0x28, CHR 0xEC, CHR 0x98, CHR 0x81, CHR 0xEA, CHR 0xB5, CHR 0xAD,
       CHR 0x29],
      ''^FTSE''),
     ([CHR 0x44, CHR 0x41, CHR 0x58, CHR 0x20, CHR 0x28, CHR 0xEB, CHR 0x8F, CHR 0x85,
       CHR 0xEC, CHR 0x9D, CHR 0xBC, CHR 0x29],
      ''^GDAXI''),
     ([CHR 0xEC, CHR 0x83, CHR 0x81, CHR 0xED, CHR 0x95, CHR 0xB4, CHR 0x20, CHR 0xEC,
       CHR 0xA2, CHR 0x85, CHR 0xED, CHR 0x95, CHR 0xA9, CHR 0x20, CHR 0x28, CHR 0xEC,
       CHR 0xA4, CHR 0x91, CHR 0xEA, CHR 0xB5, CHR 0xAD, CHR 0x29],
      ''000001.SS''),
     ([CHR 0xEC, CHR 0xBD, CHR 0x94, CHR 0xEC, CHR 0x8A, CHR 0xA4, CHR 0xED, CHR 0x94,
       CHR 0xBC, CHR 0x20, CHR 0x28, CHR 0xED, CHR 0x95, CHR 0x9C, CHR 0xEA, CHR 0xB5,
       CHR 0xAD, CHR 0x29],
      ''^KS11''),
     ([CHR 0xEC, CHR 0xBD, CHR 0x94, CHR 0xEC, CHR 0x8A, CHR 0xA4, CHR 0xEB, CHR 0x8B,
       CHR 0xA5, CHR 0x20, CHR 0x28, CHR 0xED, CHR 0x95, CHR 0x9C, CHR 0xEA, CHR 0xB5,
       CHR 0xAD, CHR 0x29],
      ''^KQ11'')]"

definition indices_futures :: "(string \<times> string) list" where
  "indices_futures =
    [([CHR 0xEB, CHR 0x82, CHR 0x98, CHR 0xEC, CHR 0x8A, CHR 0xA4, CHR 0xEB, CHR 0x8B,
       CHR 0xA5, CHR 0x20, CHR 0x28, CHR 0xEC, CHR 0x84, CHR 0xA0, CHR 0xEB, CHR 0xAC,
       CHR 0xBC, CHR 0x29],
      ''NQ=F''),
     ([CHR 0xEB, CHR 0x8B, CHR 0xA4, CHR 0xEC, CHR 0x9A, CHR 0xB0, CHR 0xEC, CHR 0xA1,
       CHR 0xB4, CHR 0xEC, CHR 0x8A, CHR 0xA4, CHR 0x20, CHR 0x28, CHR 0xEC, CHR 0x84,
       CHR 0xA0, CHR 0xEB, CHR 0xAC, CHR 0xBC, CHR 0x29],
      ''YM=F''),
     ([CHR 0x53, CHR 0x26, CHR 0x50, CHR 0x20, CHR 0x35, CHR 0x30, CHR 0x30, CHR 0x20,
       CHR 0x28, CHR 0xEC, CHR 0x84, CHR 0xA0, CHR 0xEB, CHR 0xAC, CHR 0xBC, CHR 0x29],
      ''ES=F'')]"

definition forex_pairs :: "(string \<times> string) list" where
  "forex_pairs =
    [([CHR 0xEB, CHR 0x8B, CHR 0xAC, CHR 0xEB, CHR 0x9F, CHR 0xAC, CHR 0x2F, CHR 0xEC,
       CHR 0x9C, CHR 0xA0, CHR 0xEB, CHR 0xA1, CHR 0x9C],
      ''EURUSD=X''),
     ([CHR 0xEB, CHR 0x8B, CHR 0xAC, CHR 0xEB, CHR 0x9F, CHR 0xAC, CHR 0x2F, CHR 0xEC,
       CHR 0x97, CHR 0x94],
      ''JPY=X''),
     ([CHR 0xEB, CHR 0x8B, CHR 0xAC, CHR 0xEB, CHR 0x9F, CHR 0xAC, CHR 0x2F, CHR 0xED,
       CHR 0x8C, CHR 0x8C, CHR 0xEC, CHR 0x9A, CHR 0xB4, CHR 0xEB, CHR 0x93, CHR 0x9C],
      ''GBPUSD=X''),
     ([CHR 0xEB, CHR 0x8B, CHR 0xAC, CHR 0xEB, CHR 0x9F, CHR 0xAC, CHR 0x2F, CHR 0xEC,
       CHR 0x9C, CHR 0x84, CHR 0xEC, CHR 0x95, CHR 0x88],
      ''CNY=X''),
     ([CHR 0xEB, CHR 0x8B, CHR 0xAC, CHR 0xEB, CHR 0x9F, CHR 0xAC, CHR 0x2F, CHR 0xEC,
       CHR 0x9B, CHR 0x90],
      ''KRW=X'')]"

definition us_bonds :: "(string \<times> string) list" where
  "us_bonds =
    [([CHR 0xEB, CHR 0xAF, CHR 0xB8, CHR 0xEA, CHR 0xB5, CHR 0xAD, CHR 0x20, CHR 0xEB,
       CHR 0x8B, CHR 0xA8, CHR 0xEA, CHR 0xB8, CHR 0xB0, CHR 0x20, CHR 0xEA, CHR 0xB5,
       CHR 0xAD, CHR 0xEC, CHR 0xB1, CHR 0x84, CHR 0x20, CHR 0x28, CHR 0x31, CHR 0xEB,
       CHR 0x85, CHR 0x84, CHR 0xEB, CHR 0xAC, CHR 0xBC, CHR 0x29],
      ''^IRX''),
     ([CHR 0xEB, CHR 0xAF, CHR 0xB8, CHR 0xEA, CHR 0xB5, CHR 0xAD, CHR 0x20, CHR 0xEC,
       CHR 0xA4, CHR 0x91, CHR 0xEA, CHR 0xB8, CHR 0xB0, CHR 0x20, CHR 0xEA, CHR 0xB5,
       CHR 0xAD, CHR 0xEC, CHR 0xB1, CHR 0x84, CHR 0x20, CHR 0x28, CHR 0x35, CHR 0xEB,
       CHR 0x85, CHR 0x84, CHR 0xEB, CHR 0xAC, CHR 0xBC, CHR 0x29],
      ''^FVX''),
     ([CHR 0xEB, CHR 0xAF, CHR 0xB8, CHR 0xEA, CHR 0xB5, CHR 0xAD, CHR 0x20, CHR 0xEC,
       CHR 0x9E, CHR 0xA5, CHR 0xEA, CHR 0xB8, CHR 0xB0, CHR 0x20, CHR 0xEA, CHR 0xB5,
       CHR 0xAD, CHR 0xEC, CHR 0xB1, CHR 0x84, CHR 0x20, CHR 0x28, CHR 0x31, CHR 0x30,
       CHR 0xEB, CHR 0x85, CHR 0x84, CHR 0xEB, CHR 0xAC, CHR 0xBC, CHR 0x29],
      ''^TNX''),
     ([CHR 0xEB, CHR 0xAF, CHR 0xB8, CHR 0xEA, CHR 0xB5, CHR 0xAD, CHR 0x20, CHR 0xEC,
       CHR 0xB4, CHR 0x88, CHR 0xEC, CHR 0x9E, CHR 0xA5, CHR 0xEA, CHR 0xB8, CHR 0xB0,
       CHR 0x20, CHR 0xEA, CHR 0xB5, CHR 0xAD, CHR 0xEC, CHR 0xB1, CHR 0x84, CHR 0x20,
       CHR 0x28, CHR 0x33, CHR 0x30, CHR 0xEB, CHR 0x85, CHR 0x84, CHR 0xEB, CHR 0xAC,
       CHR 0xBC, CHR 0x29],
      ''^TYX'')]"

definition crypto :: "(string \<times> string) list" where
  "crypto =
    [([CHR 0xEB, CHR 0xB9, CHR 0x84, CHR 0xED, CHR 0x8A, CHR 0xB8, CHR 0xEC, CHR 0xBD,
       CHR 0x94, CHR 0xEC, CHR 0x9D, CHR 0xB8],
      ''BTC-USD''),
     ([CHR 0xEC, CHR 0x9D, CHR 0xB4, CHR 0xEB, CHR 0x8D, CHR 0x94, CHR 0xEB, CHR 0xA6,
       CHR 0xAC, CHR 0xEC, CHR 0x9B, CHR 0x80],
      ''ETH-USD''),
     ([CHR 0xEB, CHR 0xA6, CHR 0xAC, CHR 0xED, CHR 0x94, CHR 0x8C],
      ''XRP-USD''),
     ([CHR 0xEC, CHR 0x86, CHR 0x94, CHR 0xEB, CHR 0x9D, CHR 0xBC, CHR 0xEB, CHR 0x82,
       CHR 0x98],
      ''SOL-USD''),
     ([CHR 0xEB, CHR 0xB0, CHR 0x94, CHR 0xEC, CHR 0x9D, CHR 0xB4, CHR 0xEB, CHR 0x82,
       CHR 0xB8, CHR 0xEC, CHR 0x8A, CHR 0xA4, CHR 0xEC, CHR 0xBD, CHR 0x94, CHR 0xEC,
       CHR 0x9D, CHR 0xB8],
      ''BNB-USD''),
     ([CHR 0xEB, CHR 0x8F, CHR 0x84, CHR 0xEC, CHR 0xA7, CHR 0x80, CHR 0xEC, CHR 0xBD,
       CHR 0x94, CHR 0xEC, CHR 0x9D, CHR 0xB8],
      ''DOGE-USD''),
     ([CHR 0xEC, CHR 0x97, CHR 0x90, CHR 0xEC, CHR 0x9D, CHR 0xB4, CHR 0xEB, CHR 0x8B,
       CHR 0xA4],
      ''ADA-USD''),
     ([CHR 0xED, CHR 0x8A, CHR 0xB8, CHR 0xEB, CHR 0xA1, CHR 0xA0],
      ''TRX-USD''),
     ([CHR 0xEC, CHR 0x95, CHR 0x84, CHR 0xEB, CHR 0xB0, CHR 0x9C, CHR 0xEB, CHR 0x9E,
       CHR 0x80, CHR 0xEC, CHR 0xB2, CHR 0xB4],
      ''AVAX-USD'')]"

section \<open>The refresh loop\<close>

text \<open>Sequencing of steps that may raise: an exception ends the sequence.\<close>

definition exc_bind ::
  "(state \<Rightarrow> (py_exc + 'a) \<times> state) \<Rightarrow> ('a \<Rightarrow> state \<Rightarrow> (py_exc + 'b) \<times> state) \<Rightarrow>
     state \<Rightarrow> (py_exc + 'b) \<times> state" where
  "exc_bind m f s = (case m s of (Inl e, s') \<Rightarrow> (Inl e, s') | (Inr x, s') \<Rightarrow> f x s')"

definition lift_exc :: "py_exc + 'a \<Rightarrow> state \<Rightarrow> (py_exc + 'a) \<times> state" where
  "lift_exc r s = (r, s)"

definition markdown :: "string \<Rightarrow> html \<Rightarrow> state \<Rightarrow> (py_exc + unit) \<times> state" where
  "markdown key content s = (Inr (), emit (Markdown key content) s)"

definition sleep :: "nat \<Rightarrow> state \<Rightarrow> (py_exc + unit) \<times> state" where
  "sleep d s = (Inr (), emit (Sleep d) s)"

text \<open>
  The surroundings of one pass of the loop: the world of each of its six calls of
  \<^verbatim>\<open>fetch_all_prices\<close> (numbered from 0), and the formatted Seoul time read after the
  tables are updated.
\<close>

record environment =
  worlds :: "nat \<Rightarrow> world"
  now_kst :: string

text \<open>The text before the time stamp ("data refresh time" in Korean, in bold).\<close>

definition update_time_label :: string where
  "update_time_label =
    [CHR 0x2A, CHR 0x2A, CHR 0xEB, CHR 0x8D, CHR 0xB0, CHR 0xEC, CHR 0x9D, CHR 0xB4,
     CHR 0xED, CHR 0x84, CHR 0xB0, CHR 0x20, CHR 0xEA, CHR 0xB0, CHR 0xB1, CHR 0xEC,
     CHR 0x8B, CHR 0xA0, CHR 0x20, CHR 0xEC, CHR 0x8B, CHR 0x9C, CHR 0xEA, CHR 0xB0,
     CHR 0x81, CHR 0x3A, CHR 0x2A, CHR 0x2A, CHR 0x20]"

text \<open>
  The body of \<^verbatim>\<open>while True\<close> in \<^verbatim>\<open>update_dashboard\<close>: six fetches, six table updates,
  the time stamp, and \<^verbatim>\<open>asyncio.sleep(10)\<close>.  The placeholders are those that
  \<^verbatim>\<open>render_initial_tables\<close> has created.
\<close>

definition update_dashboard_body :: "environment \<Rightarrow> state \<Rightarrow> (py_exc + unit) \<times> state" where
  "update_dashboard_body env =
     exc_bind (fetch_all_prices (worlds env 0) commodities 5) (\<lambda>commodity_prices.
     exc_bind (fetch_all_prices (worlds env 1) indices_spot 5) (\<lambda>indices_spot_prices.
     exc_bind (fetch_all_prices (worlds env 2) indices_futures 5) (\<lambda>indices_futures_prices.
     exc_bind (fetch_all_prices (worlds env 3) forex_pairs 5) (\<lambda>forex_rates.
     exc_bind (fetch_all_prices (worlds env 4) us_bonds 5) (\<lambda>bond_prices.
     exc_bind (fetch_all_prices (worlds env 5) crypto 5) (\<lambda>crypto_prices.
     exc_bind (lift_exc (create_dataframe commodity_prices (map fst commodities))) (\<lambda>t1.
     exc_bind (markdown ''commodities_table'' t1) (\<lambda>_.
     exc_bind (lift_exc (create_dataframe indices_spot_prices (map fst indices_spot))) (\<lambda>t2.
     exc_bind (markdown ''indices_spot_table'' t2) (\<lambda>_.
     exc_bind (lift_exc (create_dataframe indices_futures_prices (map fst indices_futures))) (\<lambda>t3.
     exc_bind (markdown ''indices_futures_table'' t3) (\<lambda>_.
     exc_bind (lift_exc (create_dataframe forex_rates (map fst forex_pairs))) (\<lambda>t4.
     exc_bind (markdown ''forex_table'' t4) (\<lambda>_.
     exc_bind (lift_exc (create_dataframe bond_prices (map fst us_bonds))) (\<lambda>t5.
     exc_bind (markdown ''bonds_table'' t5) (\<lambda>_.
     exc_bind (lift_exc (create_crypto_dataframe crypto_prices (map fst crypto))) (\<lambda>t6.
     exc_bind (markdown ''crypto_table'' t6) (\<lambda>_.
     exc_bind (markdown ''update_time'' (Text (update_time_label @ now_kst env))) (\<lambda>_.
     sleep 10)))))))))))))))))))"

text \<open>
  \<^verbatim>\<open>update_dashboard\<close> never returns: its loop has no exit.  \<open>update_dashboard n\<close> runs
  the first \<open>n\<close> passes, pass \<open>k\<close> in the environment \<open>envs k\<close>; the result is the exception
  that ended the loop, or \<open>None\<close> when the loop is still running after \<open>n\<close> passes.
\<close>

fun update_dashboard :: "nat \<Rightarrow> (nat \<Rightarrow> environment) \<Rightarrow> state \<Rightarrow> py_exc option \<times> state" where
  "update_dashboard 0 envs s = (None, s)"
| "update_dashboard (Suc n) envs s =
     (case update_dashboard_body (envs 0) s of
        (Inl e, s') \<Rightarrow> (Some e, s')
      | (Inr _, s') \<Rightarrow> update_dashboard n (\<lambda>k. envs (Suc k)) s')"

text \<open>\<^verbatim>\<open>main\<close> is \<^verbatim>\<open>asyncio.run(update_dashboard())\<close>.\<close>

definition main :: "nat \<Rightarrow> (nat \<Rightarrow> environment) \<Rightarrow> state \<Rightarrow> py_exc option \<times> state" where
  "main n envs s = update_dashboard n envs s"

section \<open>Notions used in the proofs\<close>

text \<open>
  The previous close a fetch of \<open>ticker\<close> works with in state \<open>s\<close>: the cached value, or
  else what the quote source answers.
\<close>

definition known_prev :: "source_reply \<Rightarrow> string \<Rightarrow> state \<Rightarrow> py_exc + real option" where
  "known_prev src ticker s =
     (case prev_close_cache s ticker of Some v \<Rightarrow> Inr v | None \<Rightarrow> info_previousClose src)"

text \<open>The quote as a function of the history reply and the previous close.\<close>

definition expected_quote :: "py_exc + real list \<Rightarrow> py_exc + real option \<Rightarrow> quote" where
  "expected_quote h p =
     (case h of
        Inl e \<Rightarrow> (None, None)
      | Inr history \<Rightarrow>
          (case p of
             Inl e \<Rightarrow> (None, None)
           | Inr prev_close \<Rightarrow>
               if history \<noteq> [] then
                 (Some (last history),
                  if truthy prev_close
                  then Some (py_round (((last history - the prev_close) / the prev_close) * 100) 2)
                  else None)
               else (None, None)))"

text \<open>The symbols queried in a stretch of the trace, and the events a fetch can emit.\<close>

fun queried :: "event \<Rightarrow> string list" where
  "queried (Query t) = [t]"
| "queried _ = []"

definition queries :: "event list \<Rightarrow> string list" where
  "queries evs = concat (map queried evs)"

fun is_fetch_event :: "event \<Rightarrow> bool" where
  "is_fetch_event (Query t) = True"
| "is_fetch_event (Print m) = True"
| "is_fetch_event _ = False"

text \<open>
  \<open>fetched qs ts s s'\<close>: state \<open>s'\<close> comes from \<open>s\<close> by fetching the symbols \<open>ts\<close> (in some
  order) from the quote source \<open>qs\<close>.
\<close>

definition fetched :: "(string \<Rightarrow> source_reply) \<Rightarrow> string list \<Rightarrow> state \<Rightarrow> state \<Rightarrow> bool" where
  "fetched qs ts s s' \<longleftrightarrow>
     (\<forall>t. known_prev (qs t) t s' = known_prev (qs t) t s) \<and>
     prev_close_cache s \<subseteq>\<^sub>m prev_close_cache s' \<and>
     (\<exists>evs. trace s' = trace s @ evs \<and> list_all is_fetch_event evs \<and>
        mset (queries evs) = mset ts)"

text \<open>All items of the six groups, in the order in which a pass fetches them.\<close>

definition catalog :: "(string \<times> string) list" where
  "catalog = commodities @ indices_spot @ indices_futures @ forex_pairs @ us_bonds @ crypto"


fun is_sleep :: "event \<Rightarrow> bool" where
  "is_sleep (Sleep d) = True"
| "is_sleep _ = False"


section \<open>A concrete scenario\<close>

text \<open>
  The state when the module has been loaded (\<^verbatim>\<open>prev_close_cache = {}\<close>), and a quote
  source in which \<open>AAA\<close> trades at 50 after a close of 40, \<open>BBB\<close> fails, and every other
  symbol trades at 110 after a close of 100.  In \<open>demo_world\<close> the fetches of a batch
  complete in the reverse of the order in which they were started.
\<close>

definition initial_state :: state where
  "initial_state = \<lparr>prev_close_cache = Map.empty, trace = []\<rparr>"

definition demo_source :: "string \<Rightarrow> source_reply" where
  "demo_source t =
     (if t = ''AAA'' then \<lparr>history_Close = Inr [50], info_previousClose = Inr (Some 40)\<rparr>
      else if t = ''BBB'' then
        \<lparr>history_Close = Inl (Exception ''No data found''), info_previousClose = Inr None\<rparr>
      else \<lparr>history_Close = Inr [110], info_previousClose = Inr (Some 100)\<rparr>)"

definition demo_world :: world where
  "demo_world = \<lparr>quote_source = demo_source, completion = (\<lambda>i k. 5 - k)\<rparr>"

definition demo_assets :: "(string \<times> string) list" where
  "demo_assets = [(''A'', ''AAA''), (''B'', ''BBB''), (''C'', ''CCC'')]"

definition demo_env :: environment where
  "demo_env = \<lparr>worlds = (\<lambda>k. demo_world), now_kst = ''2024-01-02 09:00:00''\<rparr>"

section \<open>One fetch: result, cache and trace\<close>

lemma fetch_single_price_Inr:
  "\<exists>q s'. fetch_single_price src ticker timeout s = (Inr q, s')"
  by (auto simp: fetch_single_price_def split: prod.splits sum.splits py_exc.splits)

lemma fetch_single_price_fst:
  "0 < timeout \<Longrightarrow>
   fst (fetch_single_price src ticker timeout s) =
     Inr (expected_quote (history_Close src) (known_prev src ticker s))"
  by (auto simp: fetch_single_price_def wait_for_def fetch_data_def emit_def known_prev_def
        expected_quote_def Let_def split: prod.splits sum.splits py_exc.splits option.splits if_splits)

lemma fetch_single_price_cache:
  "prev_close_cache (snd (fetch_single_price src ticker timeout s)) =
     (if 0 < timeout \<and> prev_close_cache s ticker = None
      then (case (history_Close src, info_previousClose src) of
              (Inr h, Inr v) \<Rightarrow> (prev_close_cache s)(ticker \<mapsto> v)
            | _ \<Rightarrow> prev_close_cache s)
      else prev_close_cache s)"
  by (auto simp: fetch_single_price_def wait_for_def fetch_data_def emit_def Let_def
        split: prod.splits sum.splits py_exc.splits option.splits if_splits)

lemma fetch_single_price_known_prev:
  "known_prev (qs t') t' (snd (fetch_single_price (qs ticker) ticker timeout s)) = known_prev (qs t') t' s"
  by (auto simp: known_prev_def fetch_single_price_cache split: sum.splits option.splits)

lemma fetch_single_price_map_le:
  "prev_close_cache s \<subseteq>\<^sub>m prev_close_cache (snd (fetch_single_price src ticker timeout s))"
  by (auto simp: fetch_single_price_cache map_le_def split: sum.splits)

lemma fetch_single_price_trace:
  "0 < timeout \<Longrightarrow>
   \<exists>evs. trace (snd (fetch_single_price src ticker timeout s)) = trace s @ evs \<and>
     list_all is_fetch_event evs \<and> queries evs = [ticker]"
  by (auto simp: fetch_single_price_def wait_for_def fetch_data_def emit_def Let_def queries_def
        split: prod.splits sum.splits py_exc.splits option.splits if_splits)

section \<open>Batches run in any completion order\<close>

lemma fetched_refl: "fetched qs [] s s"
  by (simp add: fetched_def queries_def)

lemma fetched_trans:
  assumes "fetched qs ts s s'" and "fetched qs us s' s''"
  shows "fetched qs (ts @ us) s s''"
proof -
  from assms(1) obtain evs where 1: "trace s' = trace s @ evs" "list_all is_fetch_event evs"
      "mset (queries evs) = mset ts"
    by (auto simp: fetched_def)
  from assms(2) obtain evs' where 2: "trace s'' = trace s' @ evs'" "list_all is_fetch_event evs'"
      "mset (queries evs') = mset us"
    by (auto simp: fetched_def)
  have "trace s'' = trace s @ (evs @ evs')" "list_all is_fetch_event (evs @ evs')"
      "mset (queries (evs @ evs')) = mset (ts @ us)"
    using 1 2 by (simp_all add: queries_def)
  then have "\<exists>evs. trace s'' = trace s @ evs \<and> list_all is_fetch_event evs \<and>
        mset (queries evs) = mset (ts @ us)"
    by blast
  moreover have "\<forall>t. known_prev (qs t) t s'' = known_prev (qs t) t s"
    using assms by (simp add: fetched_def)
  moreover have "prev_close_cache s \<subseteq>\<^sub>m prev_close_cache s''"
    using assms by (auto simp: fetched_def intro: map_le_trans)
  ultimately show ?thesis
    unfolding fetched_def by blast
qed

lemma fetched_mset: "mset ts = mset us \<Longrightarrow> fetched qs ts s s' \<Longrightarrow> fetched qs us s s'"
  by (simp add: fetched_def)

lemma fetched_single:
  "fetched qs [ticker] s (snd (fetch_single_price (qs ticker) ticker 10 s))"
  unfolding fetched_def
  using fetch_single_price_trace [of 10 "qs ticker" ticker s]
  by (auto simp: fetch_single_price_known_prev fetch_single_price_map_le)

lemma fetch_single_price_step:
  "\<exists>s1. fetch_single_price (qs t) t 10 s =
          (Inr (expected_quote (history_Close (qs t)) (known_prev (qs t) t s)), s1) \<and>
        fetched qs [t] s s1"
  using fetch_single_price_fst [of 10 "qs t" t s] fetched_single [of qs t s]
  by (cases "fetch_single_price (qs t) t 10 s") simp

lemma run_tasks_fetch:
  assumes "\<forall>k \<in> set ks. k < length batch"
  shows "\<exists>s'. run_tasks (map (\<lambda>t. fetch_single_price (qs t) t 10) batch) ks s =
           (Inr (map (\<lambda>k. (k, expected_quote (history_Close (qs (batch ! k)))
                                (known_prev (qs (batch ! k)) (batch ! k) s))) ks), s') \<and>
         fetched qs (map ((!) batch) ks) s s'"
  using assms
proof (induction ks arbitrary: s)
  case Nil
  then show ?case by (simp add: fetched_refl)
next
  case (Cons k ks)
  let ?t = "batch ! k"
  have k: "k < length batch" using Cons.prems by simp
  obtain s1 where first: "fetch_single_price (qs ?t) ?t 10 s =
      (Inr (expected_quote (history_Close (qs ?t)) (known_prev (qs ?t) ?t s)), s1)"
    and f1: "fetched qs [?t] s s1"
    using fetch_single_price_step by blast
  from Cons.IH [of s1] Cons.prems obtain s' where
    rest: "run_tasks (map (\<lambda>t. fetch_single_price (qs t) t 10) batch) ks s1 =
           (Inr (map (\<lambda>k. (k, expected_quote (history_Close (qs (batch ! k)))
                                (known_prev (qs (batch ! k)) (batch ! k) s1))) ks), s')"
    and f2: "fetched qs (map ((!) batch) ks) s1 s'"
    by auto
  have same: "\<And>t. known_prev (qs t) t s1 = known_prev (qs t) t s"
    using f1 by (simp add: fetched_def)
  have "fetched qs (map ((!) batch) (k # ks)) s s'"
    using fetched_trans [OF f1 f2] by simp
  then show ?case
    using k first rest same by simp
qed

lemma distinct_filter_eq:
  "distinct xs \<Longrightarrow> filter (\<lambda>x. a = x) xs = (if a \<in> set xs then [a] else [])"
  by (induction xs) auto

lemma sort_key_fst_indexed:
  assumes "mset ks = mset [0 ..< n]"
  shows "sort_key fst (map (\<lambda>k. (k, f k)) ks) = map (\<lambda>k. (k, f k)) [0 ..< n]"
proof (rule properties_for_sort_key)
  show "mset (map (\<lambda>k. (k, f k)) [0 ..< n]) = mset (map (\<lambda>k. (k, f k)) ks)"
    using assms by (metis mset_map)
  have d: "distinct ks"
    using assms by (metis distinct_upt mset_eq_imp_distinct_iff)
  have s: "set ks = {0 ..< n}"
    using assms by (metis mset_eq_setD set_upt)
  show "filter (\<lambda>x. fst p = fst x) (map (\<lambda>k. (k, f k)) [0 ..< n]) =
        filter (\<lambda>x. fst p = fst x) (map (\<lambda>k. (k, f k)) ks)"
    if "p \<in> set (map (\<lambda>k. (k, f k)) [0 ..< n])" for p
    using that d s by (auto simp: filter_map comp_def distinct_filter_eq)
  show "sorted (map fst (map (\<lambda>k. (k, f k)) [0 ..< n]))"
    by (simp add: comp_def)
qed

lemma gather_fetch:
  "\<exists>s'. gather finish (map (\<lambda>t. fetch_single_price (qs t) t 10) batch) s =
           (Inr (map (\<lambda>t. expected_quote (history_Close (qs t)) (known_prev (qs t) t s)) batch), s') \<and>
         fetched qs batch s s'"
proof -
  let ?ks = "sort_key finish [0 ..< length batch]"
  let ?f = "\<lambda>k. expected_quote (history_Close (qs (batch ! k))) (known_prev (qs (batch ! k)) (batch ! k) s)"
  have m: "mset ?ks = mset [0 ..< length batch]" by simp
  have "\<forall>k \<in> set ?ks. k < length batch" by simp
  from run_tasks_fetch [OF this, of qs s] obtain s' where
    run: "run_tasks (map (\<lambda>t. fetch_single_price (qs t) t 10) batch) ?ks s =
            (Inr (map (\<lambda>k. (k, ?f k)) ?ks), s')"
    and f: "fetched qs (map ((!) batch) ?ks) s s'"
    by blast
  have "mset (map ((!) batch) ?ks) = mset (map ((!) batch) [0 ..< length batch])"
    using m by (metis mset_map)
  then have "mset (map ((!) batch) ?ks) = mset batch"
    by (simp add: map_nth)
  then have f': "fetched qs batch s s'"
    using f fetched_mset by blast
  have "map snd (sort_key fst (map (\<lambda>k. (k, ?f k)) ?ks)) = map ?f [0 ..< length batch]"
    by (simp add: sort_key_fst_indexed [OF m] comp_def)
  also have "\<dots> = map (\<lambda>t. expected_quote (history_Close (qs t)) (known_prev (qs t) t s)) batch"
    by (rule nth_equalityI) simp_all
  finally show ?thesis
    using run f' by (simp add: gather_def)
qed

section \<open>The batch loop covers the group\<close>

lemma fetch_batches_fetch:
  "\<exists>s'. fetch_batches w tickers batch_size idx results s =
      (Inr (results @ concat (map (\<lambda>i. map (\<lambda>t. expected_quote (history_Close (quote_source w t))
                 (known_prev (quote_source w t) t s)) (py_slice tickers i (i + batch_size))) idx)), s') \<and>
      fetched (quote_source w) (concat (map (\<lambda>i. py_slice tickers i (i + batch_size)) idx)) s s'"
proof (induction idx arbitrary: results s)
  case Nil
  then show ?case by (simp add: fetched_refl)
next
  case (Cons i idx)
  let ?batch = "py_slice tickers i (i + batch_size)"
  let ?qs = "quote_source w"
  obtain s1 where g: "gather (completion w i) (map (\<lambda>t. fetch_single_price (?qs t) t 10) ?batch) s =
      (Inr (map (\<lambda>t. expected_quote (history_Close (?qs t)) (known_prev (?qs t) t s)) ?batch), s1)"
    and f1: "fetched ?qs ?batch s s1"
    using gather_fetch by blast
  have same: "\<And>t. known_prev (?qs t) t s1 = known_prev (?qs t) t s"
    using f1 by (simp add: fetched_def)
  from Cons.IH [of "results @ map (\<lambda>t. expected_quote (history_Close (?qs t)) (known_prev (?qs t) t s)) ?batch" s1]
  obtain s' where rest: "fetch_batches w tickers batch_size idx
        (results @ map (\<lambda>t. expected_quote (history_Close (?qs t)) (known_prev (?qs t) t s)) ?batch) s1 =
      (Inr ((results @ map (\<lambda>t. expected_quote (history_Close (?qs t)) (known_prev (?qs t) t s)) ?batch) @
          concat (map (\<lambda>i. map (\<lambda>t. expected_quote (history_Close (?qs t))
                 (known_prev (?qs t) t s1)) (py_slice tickers i (i + batch_size))) idx)), s')"
    and f2: "fetched ?qs (concat (map (\<lambda>i. py_slice tickers i (i + batch_size)) idx)) s1 s'"
    by blast
  have "fetched ?qs (concat (map (\<lambda>i. py_slice tickers i (i + batch_size)) (i # idx))) s s'"
    using fetched_trans [OF f1 f2] by simp
  then show ?case
    using g rest same by (simp add: Let_def)
qed

lemma py_slice_chunk:
  "0 < b \<Longrightarrow> py_slice xs (int k * b) (int k * b + b) = take (nat b) (drop (k * nat b) xs)"
proof -
  assume b: "0 < b"
  have 1: "nat (int k * b) = k * nat b"
    using b by (simp add: nat_mult_distrib)
  have 2: "nat (int k * b + b) = k * nat b + nat b"
    using b by (simp add: nat_add_distrib nat_mult_distrib)
  have 3: "\<not> int k * b < 0" "\<not> int k * b + b < 0"
    using b by (simp_all add: not_less add_nonneg_nonneg)
  show ?thesis
    unfolding py_slice_def slice_bound_def Let_def using 3
    by (simp add: 1 2 min_def)
qed

lemma concat_chunks:
  "concat (map (\<lambda>k. take b (drop (k * b) xs)) [0 ..< m]) = take (m * b) xs"
proof (induction m)
  case 0
  then show ?case by simp
next
  case (Suc m)
  have "take (b + m * b) xs = take (m * b) xs @ take b (drop (m * b) xs)"
    using take_add [of "m * b" b xs] by (simp add: add.commute)
  then show ?case using Suc by simp
qed

lemma py_range_pos:
  "0 < b \<Longrightarrow> py_range 0 (int n) b = Inr (map (\<lambda>k. int k * b) [0 ..< nat ((int n + b - 1) div b)])"
  by (simp add: py_range_def)

lemma py_range_neg:
  "b < 0 \<Longrightarrow> py_range 0 (int n) b = Inr []"
proof -
  assume b: "b < 0"
  have "(- b - int n - 1) div (- b) \<le> (- b - 1) div (- b)"
    using b by (intro zdiv_mono1) simp_all
  also have "(- b - 1) div (- b) = 0"
    using b by (intro div_pos_pos_trivial) simp_all
  finally have "(- b - int n - 1) div (- b) \<le> 0" .
  moreover have "0 - int n - b - 1 = - b - int n - 1" by simp
  ultimately have "(0 - int n - b - 1) div (- b) \<le> 0"
    by (simp only:)
  then show ?thesis
    using b by (simp add: py_range_def)
qed

lemma chunks_cover:
  assumes "0 < b"
  shows "n \<le> nat ((int n + b - 1) div b) * nat b"
proof -
  have "int n + b - 1 = ((int n + b - 1) div b) * b + (int n + b - 1) mod b"
    by simp
  moreover have "(int n + b - 1) mod b < b"
    using assms by simp
  ultimately have "int n \<le> ((int n + b - 1) div b) * b"
    by linarith
  moreover have "0 \<le> (int n + b - 1) div b"
    using assms by (simp add: pos_imp_zdiv_nonneg_iff)
  ultimately have "int n \<le> int (nat ((int n + b - 1) div b) * nat b)"
    using assms by simp
  then show ?thesis by linarith
qed

lemma slices_cover:
  assumes "0 < b"
  shows "concat (map (\<lambda>i. py_slice xs i (i + b))
           (map (\<lambda>k. int k * b) [0 ..< nat ((int (length xs) + b - 1) div b)])) = xs"
proof -
  have "concat (map (\<lambda>i. py_slice xs i (i + b))
           (map (\<lambda>k. int k * b) [0 ..< nat ((int (length xs) + b - 1) div b)])) =
        concat (map (\<lambda>k. take (nat b) (drop (k * nat b) xs)) [0 ..< nat ((int (length xs) + b - 1) div b)])"
    using assms by (simp add: comp_def py_slice_chunk)
  also have "\<dots> = take (nat ((int (length xs) + b - 1) div b) * nat b) xs"
    by (rule concat_chunks)
  also have "\<dots> = xs"
    using chunks_cover [OF assms, of "length xs"] by simp
  finally show ?thesis .
qed

lemma fetch_all_prices_pos:
  assumes "0 < batch_size"
  shows "\<exists>s'. fetch_all_prices w assets batch_size s =
      (Inr (map (\<lambda>t. expected_quote (history_Close (quote_source w t))
                 (known_prev (quote_source w t) t s)) (map snd assets)), s') \<and>
      fetched (quote_source w) (map snd assets) s s'"
proof -
  let ?idx = "map (\<lambda>k. int k * batch_size) [0 ..< nat ((int (length (map snd assets)) + batch_size - 1) div batch_size)]"
  let ?Q = "\<lambda>t. expected_quote (history_Close (quote_source w t)) (known_prev (quote_source w t) t s)"
  have r: "py_range 0 (int (length (map snd assets))) batch_size = Inr ?idx"
    using assms by (rule py_range_pos)
  obtain s' where fb: "fetch_batches w (map snd assets) batch_size ?idx [] s =
      (Inr ([] @ concat (map (\<lambda>i. map ?Q (py_slice (map snd assets) i (i + batch_size))) ?idx)), s')"
    and f: "fetched (quote_source w) (concat (map (\<lambda>i. py_slice (map snd assets) i (i + batch_size)) ?idx)) s s'"
    using fetch_batches_fetch by blast
  have c: "concat (map (\<lambda>i. py_slice (map snd assets) i (i + batch_size)) ?idx) = map snd assets"
    using assms by (rule slices_cover)
  have "concat (map (\<lambda>i. map ?Q (py_slice (map snd assets) i (i + batch_size))) ?idx) =
        map ?Q (concat (map (\<lambda>i. py_slice (map snd assets) i (i + batch_size)) ?idx))"
    by (simp add: map_concat comp_def)
  then have "concat (map (\<lambda>i. map ?Q (py_slice (map snd assets) i (i + batch_size))) ?idx) =
        map ?Q (map snd assets)"
    using c by simp
  then show ?thesis
    using r fb f c unfolding fetch_all_prices_def Let_def by simp
qed

lemma fetch_all_prices_neg:
  "batch_size < 0 \<Longrightarrow> fetch_all_prices w assets batch_size s = (Inr [], s)"
  by (simp add: fetch_all_prices_def py_range_neg)

lemma fetch_all_prices_zero:
  "fetch_all_prices w assets 0 s = (Inl (ValueError ''range() arg 3 must not be zero''), s)"
  by (simp add: fetch_all_prices_def py_range_def)

section \<open>Rows of fetched quotes\<close>

lemma expected_quote_wf: "fst (expected_quote h p) = None \<Longrightarrow> snd (expected_quote h p) = None"
  by (auto simp: expected_quote_def split: sum.splits if_splits)

lemma format_row_wf:
  assumes "fst q = None \<longrightarrow> snd q = None"
  shows "format_row digits name q =
    Inr \<lparr>asset = name,
         current_price_usd =
           (case fst q of
              None \<Rightarrow> no_data
            | Some p \<Rightarrow>
                (if truthy (snd q) \<and> the (snd q) > 0 then span_red (format_fixed p digits)
                 else if truthy (snd q) \<and> the (snd q) < 0 then span_blue (format_fixed p digits)
                 else span_plain (format_fixed p digits))),
         change_rate_pct =
           (if truthy (snd q) \<and> the (snd q) > 0 then span_red (format_fixed (the (snd q)) 2 @ ''%'')
            else if truthy (snd q) \<and> the (snd q) < 0 then span_blue (format_fixed (the (snd q)) 2 @ ''%'')
            else no_data)\<rparr>"
  using assms
  by (cases q) (auto simp: format_row_def price_cell_def change_cell_def format_opt_def
      split: option.splits)

lemma format_rows_wf:
  assumes "\<forall>q \<in> set (map snd rows). fst q = None \<longrightarrow> snd q = None"
  shows "\<exists>rs. format_rows digits rows = Inr rs \<and> length rs = length rows \<and>
     (\<forall>i < length rows. format_row digits (fst (rows ! i)) (snd (rows ! i)) = Inr (rs ! i))"
  using assms
proof (induction rows)
  case Nil
  then show ?case by simp
next
  case (Cons a rows)
  obtain name q where a: "a = (name, q)" by (cases a)
  from Cons.prems a have "fst q = None \<longrightarrow> snd q = None" by simp
  from format_row_wf [OF this] obtain r where r: "format_row digits name q = Inr r" by blast
  from Cons obtain rs where rs: "format_rows digits rows = Inr rs" "length rs = length rows"
     "\<forall>i < length rows. format_row digits (fst (rows ! i)) (snd (rows ! i)) = Inr (rs ! i)"
    by auto
  show ?case
    using a r rs by (auto simp: nth_Cons split: nat.splits)
qed


lemma fetch_all_prices_wf:
  assumes "fetch_all_prices w assets batch_size s = (Inr results, s')"
  shows "\<forall>q \<in> set results. fst q = None \<longrightarrow> snd q = None"
proof (cases "0 < batch_size")
  case True
  from fetch_all_prices_pos [OF True, of w assets s] assms
  have "results = map (\<lambda>t. expected_quote (history_Close (quote_source w t))
                 (known_prev (quote_source w t) t s)) (map snd assets)"
    by auto
  then show ?thesis
    by (auto simp: expected_quote_wf)
next
  case False
  then consider "batch_size = 0" | "batch_size < 0" by linarith
  then show ?thesis
    using assms by cases (auto simp: fetch_all_prices_zero fetch_all_prices_neg)
qed

section \<open>One pass of the refresh loop\<close>

lemma fetch_all_prices_group:
  "\<exists>results s' evs. fetch_all_prices w assets 5 s = (Inr results, s') \<and>
     length results = length assets \<and>
     (\<forall>q \<in> set results. fst q = None \<longrightarrow> snd q = None) \<and>
     prev_close_cache s \<subseteq>\<^sub>m prev_close_cache s' \<and>
     trace s' = trace s @ evs \<and> list_all is_fetch_event evs \<and>
     mset (queries evs) = mset (map snd assets)"
proof -
  have "(0::int) < 5" by simp
  from fetch_all_prices_pos [OF this, of w assets s] obtain s' where
    r: "fetch_all_prices w assets 5 s =
      (Inr (map (\<lambda>t. expected_quote (history_Close (quote_source w t))
                 (known_prev (quote_source w t) t s)) (map snd assets)), s')"
    and f: "fetched (quote_source w) (map snd assets) s s'"
    by blast
  from f obtain evs where "trace s' = trace s @ evs" "list_all is_fetch_event evs"
     "mset (queries evs) = mset (map snd assets)" "prev_close_cache s \<subseteq>\<^sub>m prev_close_cache s'"
    unfolding fetched_def by blast
  moreover have "\<forall>q \<in> set (map (\<lambda>t. expected_quote (history_Close (quote_source w t))
                 (known_prev (quote_source w t) t s)) (map snd assets)). fst q = None \<longrightarrow> snd q = None"
    using fetch_all_prices_wf [OF r] .
  ultimately show ?thesis
    using r by (intro exI [of _ "map (\<lambda>t. expected_quote (history_Close (quote_source w t))
                 (known_prev (quote_source w t) t s)) (map snd assets)"] exI [of _ s'] exI [of _ evs]) simp
qed

lemma format_rows_zip:
  assumes "\<forall>q \<in> set data. fst q = None \<longrightarrow> snd q = None"
  shows "\<exists>rs. format_rows digits (zip asset_names data) = Inr rs \<and>
     length rs = min (length asset_names) (length data) \<and>
     (\<forall>i < length rs. format_row digits (asset_names ! i) (data ! i) = Inr (rs ! i))"
proof -
  have "\<forall>q \<in> set (map snd (zip asset_names data)). fst q = None \<longrightarrow> snd q = None"
    using assms set_zip_rightD by fastforce
  from format_rows_wf [OF this, of digits] obtain rs where
    rs: "format_rows digits (zip asset_names data) = Inr rs"
      "length rs = length (zip asset_names data)"
      "\<forall>i < length (zip asset_names data).
          format_row digits (fst (zip asset_names data ! i)) (snd (zip asset_names data ! i)) = Inr (rs ! i)"
    by blast
  then show ?thesis by auto
qed

lemma create_dataframe_ok:
  assumes "\<forall>q \<in> set data. fst q = None \<longrightarrow> snd q = None"
  shows "\<exists>rs. create_dataframe data asset_names = Inr (Styled_table rs) \<and>
           length rs = min (length asset_names) (length data)"
    and "\<exists>rs. create_crypto_dataframe data asset_names = Inr (Styled_table rs) \<and>
           length rs = min (length asset_names) (length data)"
  using format_rows_zip [OF assms, of 2 asset_names] format_rows_zip [OF assms, of 4 asset_names]
  by (auto simp: create_dataframe_def create_crypto_dataframe_def)

lemma update_dashboard_body_groups:
  "\<exists>s' e1 e2 e3 e4 e5 e6 r1 r2 r3 r4 r5 r6.
     update_dashboard_body env s = (Inr (), s') \<and>
     prev_close_cache s \<subseteq>\<^sub>m prev_close_cache s' \<and>
     trace s' = trace s @ (e1 @ e2 @ e3 @ e4 @ e5 @ e6) @
       [Markdown ''commodities_table'' (Styled_table r1),
        Markdown ''indices_spot_table'' (Styled_table r2),
        Markdown ''indices_futures_table'' (Styled_table r3),
        Markdown ''forex_table'' (Styled_table r4),
        Markdown ''bonds_table'' (Styled_table r5),
        Markdown ''crypto_table'' (Styled_table r6),
        Markdown ''update_time'' (Text (update_time_label @ now_kst env)),
        Sleep 10] \<and>
     list_all is_fetch_event (e1 @ e2 @ e3 @ e4 @ e5 @ e6) \<and>
     mset (queries e1) = mset (map snd commodities) \<and>
     mset (queries e2) = mset (map snd indices_spot) \<and>
     mset (queries e3) = mset (map snd indices_futures) \<and>
     mset (queries e4) = mset (map snd forex_pairs) \<and>
     mset (queries e5) = mset (map snd us_bonds) \<and>
     mset (queries e6) = mset (map snd crypto) \<and>
     length r1 = length commodities \<and> length r2 = length indices_spot \<and>
     length r3 = length indices_futures \<and> length r4 = length forex_pairs \<and>
     length r5 = length us_bonds \<and> length r6 = length crypto"
proof -
  obtain q1 s1 e1 where 1: "fetch_all_prices (worlds env 0) commodities 5 s = (Inr q1, s1)"
    "length q1 = length commodities" "\<forall>q \<in> set q1. fst q = None \<longrightarrow> snd q = None"
    "prev_close_cache s \<subseteq>\<^sub>m prev_close_cache s1" "trace s1 = trace s @ e1"
    "list_all is_fetch_event e1" "mset (queries e1) = mset (map snd commodities)"
    using fetch_all_prices_group by blast
  obtain q2 s2 e2 where 2: "fetch_all_prices (worlds env 1) indices_spot 5 s1 = (Inr q2, s2)"
    "length q2 = length indices_spot" "\<forall>q \<in> set q2. fst q = None \<longrightarrow> snd q = None"
    "prev_close_cache s1 \<subseteq>\<^sub>m prev_close_cache s2" "trace s2 = trace s1 @ e2"
    "list_all is_fetch_event e2" "mset (queries e2) = mset (map snd indices_spot)"
    using fetch_all_prices_group by blast
  obtain q3 s3 e3 where 3: "fetch_all_prices (worlds env 2) indices_futures 5 s2 = (Inr q3, s3)"
    "length q3 = length indices_futures" "\<forall>q \<in> set q3. fst q = None \<longrightarrow> snd q = None"
    "prev_close_cache s2 \<subseteq>\<^sub>m prev_close_cache s3" "trace s3 = trace s2 @ e3"
    "list_all is_fetch_event e3" "mset (queries e3) = mset (map snd indices_futures)"
    using fetch_all_prices_group by blast
  obtain q4 s4 e4 where 4: "fetch_all_prices (worlds env 3) forex_pairs 5 s3 = (Inr q4, s4)"
    "length q4 = length forex_pairs" "\<forall>q \<in> set q4. fst q = None \<longrightarrow> snd q = None"
    "prev_close_cache s3 \<subseteq>\<^sub>m prev_close_cache s4" "trace s4 = trace s3 @ e4"
    "list_all is_fetch_event e4" "mset (queries e4) = mset (map snd forex_pairs)"
    using fetch_all_prices_group by blast
  obtain q5 s5 e5 where 5: "fetch_all_prices (worlds env 4) us_bonds 5 s4 = (Inr q5, s5)"
    "length q5 = length us_bonds" "\<forall>q \<in> set q5. fst q = None \<longrightarrow> snd q = None"
    "prev_close_cache s4 \<subseteq>\<^sub>m prev_close_cache s5" "trace s5 = trace s4 @ e5"
    "list_all is_fetch_event e5" "mset (queries e5) = mset (map snd us_bonds)"
    using fetch_all_prices_group by blast
  obtain q6 s6 e6 where 6: "fetch_all_prices (worlds env 5) crypto 5 s5 = (Inr q6, s6)"
    "length q6 = length crypto" "\<forall>q \<in> set q6. fst q = None \<longrightarrow> snd q = None"
    "prev_close_cache s5 \<subseteq>\<^sub>m prev_close_cache s6" "trace s6 = trace s5 @ e6"
    "list_all is_fetch_event e6" "mset (queries e6) = mset (map snd crypto)"
    using fetch_all_prices_group by blast
  obtain r1 where r1: "create_dataframe q1 (map fst commodities) = Inr (Styled_table r1)"
    "length r1 = length commodities"
    using create_dataframe_ok(1) [OF 1(3), of "map fst commodities"] 1(2) by auto
  obtain r2 where r2: "create_dataframe q2 (map fst indices_spot) = Inr (Styled_table r2)"
    "length r2 = length indices_spot"
    using create_dataframe_ok(1) [OF 2(3), of "map fst indices_spot"] 2(2) by auto
  obtain r3 where r3: "create_dataframe q3 (map fst indices_futures) = Inr (Styled_table r3)"
    "length r3 = length indices_futures"
    using create_dataframe_ok(1) [OF 3(3), of "map fst indices_futures"] 3(2) by auto
  obtain r4 where r4: "create_dataframe q4 (map fst forex_pairs) = Inr (Styled_table r4)"
    "length r4 = length forex_pairs"
    using create_dataframe_ok(1) [OF 4(3), of "map fst forex_pairs"] 4(2) by auto
  obtain r5 where r5: "create_dataframe q5 (map fst us_bonds) = Inr (Styled_table r5)"
    "length r5 = length us_bonds"
    using create_dataframe_ok(1) [OF 5(3), of "map fst us_bonds"] 5(2) by auto
  obtain r6 where r6: "create_crypto_dataframe q6 (map fst crypto) = Inr (Styled_table r6)"
    "length r6 = length crypto"
    using create_dataframe_ok(2) [OF 6(3), of "map fst crypto"] 6(2) by auto
  let ?s' = "s6\<lparr>trace := trace s @ (e1 @ e2 @ e3 @ e4 @ e5 @ e6) @
       [Markdown ''commodities_table'' (Styled_table r1),
        Markdown ''indices_spot_table'' (Styled_table r2),
        Markdown ''indices_futures_table'' (Styled_table r3),
        Markdown ''forex_table'' (Styled_table r4),
        Markdown ''bonds_table'' (Styled_table r5),
        Markdown ''crypto_table'' (Styled_table r6),
        Markdown ''update_time'' (Text (update_time_label @ now_kst env)),
        Sleep 10]\<rparr>"
  have run: "update_dashboard_body env s = (Inr (), ?s')"
    unfolding update_dashboard_body_def exc_bind_def lift_exc_def markdown_def sleep_def emit_def
    by (simp add: 1(1,5) 2(1,5) 3(1,5) 4(1,5) 5(1,5) 6(1,5) r1(1) r2(1) r3(1) r4(1) r5(1) r6(1)
          del: One_nat_def)
  have le: "prev_close_cache s \<subseteq>\<^sub>m prev_close_cache ?s'"
    using map_le_trans [OF map_le_trans [OF map_le_trans [OF map_le_trans [OF map_le_trans
      [OF 1(4) 2(4)] 3(4)] 4(4)] 5(4)] 6(4)] by simp
  have ev: "list_all is_fetch_event (e1 @ e2 @ e3 @ e4 @ e5 @ e6)"
    using 1(6) 2(6) 3(6) 4(6) 5(6) 6(6) by simp
  show ?thesis
    apply (rule exI [of _ ?s'])
    apply (rule exI [of _ e1], rule exI [of _ e2], rule exI [of _ e3])
    apply (rule exI [of _ e4], rule exI [of _ e5], rule exI [of _ e6])
    apply (rule exI [of _ r1], rule exI [of _ r2], rule exI [of _ r3])
    apply (rule exI [of _ r4], rule exI [of _ r5], rule exI [of _ r6])
    using run le ev 1(7) 2(7) 3(7) 4(7) 5(7) 6(7) r1(2) r2(2) r3(2) r4(2) r5(2) r6(2) by simp
qed

lemma update_dashboard_body_run:
  "\<exists>s' fetch_evs r1 r2 r3 r4 r5 r6.
     update_dashboard_body env s = (Inr (), s') \<and>
     prev_close_cache s \<subseteq>\<^sub>m prev_close_cache s' \<and>
     trace s' = trace s @ fetch_evs @
       [Markdown ''commodities_table'' (Styled_table r1),
        Markdown ''indices_spot_table'' (Styled_table r2),
        Markdown ''indices_futures_table'' (Styled_table r3),
        Markdown ''forex_table'' (Styled_table r4),
        Markdown ''bonds_table'' (Styled_table r5),
        Markdown ''crypto_table'' (Styled_table r6),
        Markdown ''update_time'' (Text (update_time_label @ now_kst env)),
        Sleep 10] \<and>
     list_all is_fetch_event fetch_evs \<and>
     mset (queries fetch_evs) = mset (map snd catalog)"
proof -
  obtain s' e1 e2 e3 e4 e5 e6 r1 r2 r3 r4 r5 r6 where
    "update_dashboard_body env s = (Inr (), s')"
    "prev_close_cache s \<subseteq>\<^sub>m prev_close_cache s'"
    "trace s' = trace s @ (e1 @ e2 @ e3 @ e4 @ e5 @ e6) @
       [Markdown ''commodities_table'' (Styled_table r1),
        Markdown ''indices_spot_table'' (Styled_table r2),
        Markdown ''indices_futures_table'' (Styled_table r3),
        Markdown ''forex_table'' (Styled_table r4),
        Markdown ''bonds_table'' (Styled_table r5),
        Markdown ''crypto_table'' (Styled_table r6),
        Markdown ''update_time'' (Text (update_time_label @ now_kst env)),
        Sleep 10]"
    "list_all is_fetch_event (e1 @ e2 @ e3 @ e4 @ e5 @ e6)"
    "mset (queries e1) = mset (map snd commodities)"
    "mset (queries e2) = mset (map snd indices_spot)"
    "mset (queries e3) = mset (map snd indices_futures)"
    "mset (queries e4) = mset (map snd forex_pairs)"
    "mset (queries e5) = mset (map snd us_bonds)"
    "mset (queries e6) = mset (map snd crypto)"
    using update_dashboard_body_groups [of env s] by blast
  moreover from this have "mset (queries (e1 @ e2 @ e3 @ e4 @ e5 @ e6)) = mset (map snd catalog)"
    by (simp add: queries_def catalog_def)
  ultimately show ?thesis by blast
qed

section \<open>The loop\<close>

lemma update_dashboard_run:
  "\<exists>s' passes. update_dashboard n envs s = (None, s') \<and>
     prev_close_cache s \<subseteq>\<^sub>m prev_close_cache s' \<and>
     length passes = n \<and>
     trace s' = trace s @ concat (map (\<lambda>evs. evs @ [Sleep 10]) passes) \<and>
     (\<forall>evs \<in> set passes. evs \<noteq> [] \<and> list_all (\<lambda>ev. \<not> is_sleep ev) evs)"
proof (induction n arbitrary: envs s)
  case 0
  show ?case by (rule exI [of _ s], rule exI [of _ "[]"]) simp
next
  case (Suc n)
  obtain s1 fetch_evs r1 r2 r3 r4 r5 r6 where
    b: "update_dashboard_body (envs 0) s = (Inr (), s1)"
    and le1: "prev_close_cache s \<subseteq>\<^sub>m prev_close_cache s1"
    and tr1: "trace s1 = trace s @ fetch_evs @
       [Markdown ''commodities_table'' (Styled_table r1),
        Markdown ''indices_spot_table'' (Styled_table r2),
        Markdown ''indices_futures_table'' (Styled_table r3),
        Markdown ''forex_table'' (Styled_table r4),
        Markdown ''bonds_table'' (Styled_table r5),
        Markdown ''crypto_table'' (Styled_table r6),
        Markdown ''update_time'' (Text (update_time_label @ now_kst (envs 0))),
        Sleep 10]"
    and fe: "list_all is_fetch_event fetch_evs"
    using update_dashboard_body_run [of "envs 0" s] by blast
  let ?pass = "fetch_evs @
       [Markdown ''commodities_table'' (Styled_table r1),
        Markdown ''indices_spot_table'' (Styled_table r2),
        Markdown ''indices_futures_table'' (Styled_table r3),
        Markdown ''forex_table'' (Styled_table r4),
        Markdown ''bonds_table'' (Styled_table r5),
        Markdown ''crypto_table'' (Styled_table r6),
        Markdown ''update_time'' (Text (update_time_label @ now_kst (envs 0)))]"
  have ns: "list_all (\<lambda>ev. \<not> is_sleep ev) fetch_evs"
    using fe by (induction fetch_evs) (auto elim: is_fetch_event.elims)
  from Suc.IH [of "\<lambda>k. envs (Suc k)" s1] obtain s' passes where
    r: "update_dashboard n (\<lambda>k. envs (Suc k)) s1 = (None, s')"
    and le2: "prev_close_cache s1 \<subseteq>\<^sub>m prev_close_cache s'"
    and len: "length passes = n"
    and tr2: "trace s' = trace s1 @ concat (map (\<lambda>evs. evs @ [Sleep 10]) passes)"
    and ps: "\<forall>evs \<in> set passes. evs \<noteq> [] \<and> list_all (\<lambda>ev. \<not> is_sleep ev) evs"
    by blast
  have "update_dashboard (Suc n) envs s = (None, s')"
    using b r by simp
  moreover have "prev_close_cache s \<subseteq>\<^sub>m prev_close_cache s'"
    using le1 le2 by (rule map_le_trans)
  moreover have "length (?pass # passes) = Suc n"
    using len by simp
  moreover have "trace s' = trace s @ concat (map (\<lambda>evs. evs @ [Sleep 10]) (?pass # passes))"
    using tr1 tr2 by simp
  moreover have "\<forall>evs \<in> set (?pass # passes). evs \<noteq> [] \<and> list_all (\<lambda>ev. \<not> is_sleep ev) evs"
    using ps ns by simp
  ultimately show ?case by blast
qed

lemma fetch_all_prices_map_le:
  "prev_close_cache s \<subseteq>\<^sub>m prev_close_cache (snd (fetch_all_prices w assets batch_size s))"
proof -
  consider "0 < batch_size" | "batch_size = 0" | "batch_size < 0" by linarith
  then show ?thesis
  proof cases
    case 1
    from fetch_all_prices_pos [OF 1, of w assets s] show ?thesis
      by (auto simp: fetched_def)
  next
    case 2
    then show ?thesis by (simp add: fetch_all_prices_zero)
  next
    case 3
    then show ?thesis by (simp add: fetch_all_prices_neg)
  qed
qed

lemma fetch_all_prices_Inr:
  "batch_size \<noteq> 0 \<Longrightarrow> \<exists>results s'. fetch_all_prices w assets batch_size s = (Inr results, s')"
proof -
  assume "batch_size \<noteq> 0"
  then consider "0 < batch_size" | "batch_size < 0" by linarith
  then show ?thesis
  proof cases
    case 1
    from fetch_all_prices_pos [OF 1, of w assets s] show ?thesis by blast
  next
    case 2
    then show ?thesis by (simp add: fetch_all_prices_neg)
  qed
qed




section \<open>The properties of the specification\<close>

text \<open>
  C1.  For every group and every batch size of at least 1, \<^verbatim>\<open>fetch_all_prices\<close> returns
  one quote per symbol of the group, and the quote at index \<open>i\<close> is the quote that
  fetching the \<open>i\<close>-th symbol produces, whatever the order in which the fetches of a batch
  complete (\<open>completion w\<close> is arbitrary).
\<close>

theorem fetch_all_prices_mirrors_input:
  assumes "1 \<le> batch_size"
  shows "\<exists>results s'.
     fetch_all_prices w assets batch_size s = (Inr results, s') \<and>
     length results = length assets \<and>
     (\<forall>i < length assets.
        fst (fetch_single_price (quote_source w (snd (assets ! i))) (snd (assets ! i)) 10 s) =
          Inr (results ! i))"
proof -
  have "0 < batch_size" using assms by simp
  from fetch_all_prices_pos [OF this, of w assets s] obtain s' where
    "fetch_all_prices w assets batch_size s =
      (Inr (map (\<lambda>t. expected_quote (history_Close (quote_source w t))
                 (known_prev (quote_source w t) t s)) (map snd assets)), s')"
    by blast
  then show ?thesis
    by (simp add: fetch_single_price_fst)
qed

theorem fetch_all_prices_mirrors_input_witness:
  "(1::int) \<le> 2 \<and>
   fst (fetch_all_prices demo_world demo_assets 2 initial_state) =
     Inr [(Some 50, Some 25), (None, None), (Some 110, Some 10)]"
proof -
  have h: "(1::int) \<le> 2" by simp
  from fetch_all_prices_mirrors_input [OF h, of demo_world demo_assets initial_state]
  obtain results s' where
    r: "fetch_all_prices demo_world demo_assets 2 initial_state = (Inr results, s')"
    and len: "length results = length demo_assets"
    and nth: "\<forall>i < length demo_assets.
        fst (fetch_single_price (quote_source demo_world (snd (demo_assets ! i)))
               (snd (demo_assets ! i)) 10 initial_state) = Inr (results ! i)"
    by blast
  have q0: "fst (fetch_single_price (demo_source ''AAA'') ''AAA'' 10 initial_state) =
      Inr (Some 50, Some 25)"
    by (simp add: fetch_single_price_def wait_for_def fetch_data_def emit_def demo_source_def
        initial_state_def py_round_def round_half_even_def)
  have q1: "fst (fetch_single_price (demo_source ''BBB'') ''BBB'' 10 initial_state) =
      Inr (None, None)"
    by (simp add: fetch_single_price_def wait_for_def fetch_data_def emit_def demo_source_def
        initial_state_def)
  have q2: "fst (fetch_single_price (demo_source ''CCC'') ''CCC'' 10 initial_state) =
      Inr (Some 110, Some 10)"
    by (simp add: fetch_single_price_def wait_for_def fetch_data_def emit_def demo_source_def
        initial_state_def py_round_def round_half_even_def)
  have l3: "length results = 3" using len by (simp add: demo_assets_def)
  have "results ! 0 = (Some 50, Some 25)" "results ! 1 = (None, None)"
       "results ! 2 = (Some 110, Some 10)"
    using nth [rule_format, of 0] nth [rule_format, of 1] nth [rule_format, of 2] q0 q1 q2
    by (simp_all add: demo_assets_def demo_world_def)
  then have "results = [(Some 50, Some 25), (None, None), (Some 110, Some 10)]"
    using l3 by (intro nth_equalityI) (auto simp: less_Suc_eq numeral_3_eq_3 numeral_2_eq_2)
  then show ?thesis using r h by simp
qed

text \<open>
  C10.  With a negative batch size \<^verbatim>\<open>fetch_all_prices\<close> returns the empty list, without
  fetching anything (the state, and so the trace, is unchanged) and without raising; hence,
  for a non-empty group, a result as long as the group is returned exactly when the batch
  size is at least 1.
\<close>

theorem fetch_all_prices_negative_batch:
  "(batch_size < 0 \<longrightarrow> fetch_all_prices w assets batch_size s = (Inr [], s)) \<and>
   (assets \<noteq> [] \<longrightarrow>
      ((\<exists>results s'. fetch_all_prices w assets batch_size s = (Inr results, s') \<and>
          length results = length assets) \<longleftrightarrow> 1 \<le> batch_size))"
proof -
  have neg: "batch_size < 0 \<longrightarrow> fetch_all_prices w assets batch_size s = (Inr [], s)"
    by (simp add: fetch_all_prices_neg)
  have iff: "(\<exists>results s'. fetch_all_prices w assets batch_size s = (Inr results, s') \<and>
          length results = length assets) \<longleftrightarrow> 1 \<le> batch_size" if ne: "assets \<noteq> []"
  proof (cases "0 < batch_size")
    case True
    from fetch_all_prices_pos [OF True, of w assets s] show ?thesis
      using True by auto
  next
    case False
    then consider "batch_size = 0" | "batch_size < 0" by linarith
    then show ?thesis
      using ne by cases (auto simp: fetch_all_prices_zero fetch_all_prices_neg)
  qed
  show ?thesis using neg iff by blast
qed

theorem fetch_all_prices_negative_batch_witness:
  "(-1::int) < 0 \<and> demo_assets \<noteq> [] \<and>
   fetch_all_prices demo_world demo_assets (-1) initial_state = (Inr [], initial_state) \<and>
   \<not> (\<exists>results s'. fetch_all_prices demo_world demo_assets (-1) initial_state = (Inr results, s') \<and>
          length results = length demo_assets)"
  using fetch_all_prices_negative_batch [of "-1" demo_world demo_assets initial_state]
  by (simp add: demo_assets_def)



text \<open>
  C3.  The cache only grows: an entry that is recorded (also the entry \<^verbatim>\<open>None\<close>) is still
  there, unchanged, after a fetch of any symbol, after \<^verbatim>\<open>fetch_all_prices\<close> on any group
  and after any number of passes of the loop.  The first write wins: once a fetch has stored
  \<open>v1\<close> for a symbol, a second fetch of that symbol, whatever the quote source then answers,
  leaves \<open>v1\<close>.
\<close>

theorem prev_close_cache_monotonic:
  "(prev_close_cache s k = Some v \<longrightarrow>
      prev_close_cache (snd (fetch_single_price src ticker timeout s)) k = Some v \<and>
      prev_close_cache (snd (fetch_all_prices w assets batch_size s)) k = Some v \<and>
      prev_close_cache (snd (update_dashboard n envs s)) k = Some v) \<and>
   (0 < timeout \<and> prev_close_cache s ticker = None \<and>
    history_Close src = Inr history \<and> info_previousClose src = Inr v1 \<longrightarrow>
      prev_close_cache (snd (fetch_single_price src ticker timeout s)) ticker = Some v1 \<and>
      prev_close_cache
        (snd (fetch_single_price src' ticker timeout'
               (snd (fetch_single_price src ticker timeout s)))) ticker = Some v1)"
proof -
  have keep: "m' x = Some y" if "m \<subseteq>\<^sub>m m'" "m x = Some y"
    for m m' :: "string \<rightharpoonup> real option" and x y
    using that by (metis domI map_le_def)
  have a: "prev_close_cache (snd (fetch_single_price src ticker timeout s)) k = Some v"
    if "prev_close_cache s k = Some v"
    using keep [OF fetch_single_price_map_le that] .
  have b: "prev_close_cache (snd (fetch_all_prices w assets batch_size s)) k = Some v"
    if "prev_close_cache s k = Some v"
    using keep [OF fetch_all_prices_map_le that] .
  have c: "prev_close_cache (snd (update_dashboard n envs s)) k = Some v"
    if "prev_close_cache s k = Some v"
  proof -
    from update_dashboard_run [of n envs s] obtain s' where
      "update_dashboard n envs s = (None, s')" "prev_close_cache s \<subseteq>\<^sub>m prev_close_cache s'"
      by blast
    then show ?thesis using keep that by simp
  qed
  have d: "prev_close_cache (snd (fetch_single_price src ticker timeout s)) ticker = Some v1"
    if "0 < timeout" "prev_close_cache s ticker = None"
       "history_Close src = Inr history" "info_previousClose src = Inr v1"
    using that by (simp add: fetch_single_price_cache)
  have e: "prev_close_cache
        (snd (fetch_single_price src' ticker timeout'
               (snd (fetch_single_price src ticker timeout s)))) ticker = Some v1"
    if "0 < timeout" "prev_close_cache s ticker = None"
       "history_Close src = Inr history" "info_previousClose src = Inr v1"
    using keep [OF fetch_single_price_map_le d [OF that]] .
  show ?thesis using a b c d e by blast
qed

theorem prev_close_cache_monotonic_witness:
  "prev_close_cache
     (snd (fetch_single_price \<lparr>history_Close = Inr [60], info_previousClose = Inr (Some 99)\<rparr>
             ''AAA'' 10
             (snd (fetch_single_price (demo_source ''AAA'') ''AAA'' 10 initial_state)))) ''AAA'' =
     Some (Some 40) \<and>
   prev_close_cache
     (snd (update_dashboard 3 (\<lambda>k. demo_env)
        (snd (fetch_single_price (demo_source ''AAA'') ''AAA'' 10 initial_state)))) ''AAA'' =
     Some (Some 40)"
proof -
  let ?s1 = "snd (fetch_single_price (demo_source ''AAA'') ''AAA'' 10 initial_state)"
  have h: "(0::int) < 10 \<and> prev_close_cache initial_state ''AAA'' = None \<and>
      history_Close (demo_source ''AAA'') = Inr [50] \<and>
      info_previousClose (demo_source ''AAA'') = Inr (Some 40)"
    by (simp add: initial_state_def demo_source_def)
  have 1: "prev_close_cache ?s1 ''AAA'' = Some (Some 40)"
    and 2: "prev_close_cache
     (snd (fetch_single_price \<lparr>history_Close = Inr [60], info_previousClose = Inr (Some 99)\<rparr>
             ''AAA'' 10 ?s1)) ''AAA'' = Some (Some 40)"
    using prev_close_cache_monotonic [where s = initial_state and ticker = "''AAA''"
        and src = "demo_source ''AAA''" and timeout = 10 and history = "[50]" and ?v1.0 = "Some 40"
        and src' = "\<lparr>history_Close = Inr [60], info_previousClose = Inr (Some 99)\<rparr>"
        and timeout' = 10] h
    by blast+
  have 3: "prev_close_cache (snd (update_dashboard 3 (\<lambda>k. demo_env) ?s1)) ''AAA'' = Some (Some 40)"
    using prev_close_cache_monotonic [where s = ?s1 and k = "''AAA''" and v = "Some 40"
        and n = 3 and envs = "\<lambda>k. demo_env"] 1
    by blast
  show ?thesis using 2 3 by simp
qed






text \<open>
  C9.  After \<open>n\<close> passes the trace is the sequence of the \<open>n\<close> passes, each followed by
  exactly one \<^verbatim>\<open>asyncio.sleep(10)\<close>: a pass itself never sleeps, every pass does work (it is
  not empty), and the argument of the sleep is always 10.  So between the end of one pass
  and the start of the next lies one sleep of 10 seconds, whatever the fetches returned.
\<close>

theorem update_dashboard_sleeps_10_between_passes:
  "\<exists>s' passes. update_dashboard n envs s = (None, s') \<and>
     length passes = n \<and>
     trace s' = trace s @ concat (map (\<lambda>evs. evs @ [Sleep 10]) passes) \<and>
     (\<forall>evs \<in> set passes. evs \<noteq> [] \<and> list_all (\<lambda>ev. \<not> is_sleep ev) evs)"
  using update_dashboard_run [of n envs s] by blast

theorem update_dashboard_sleeps_10_between_passes_witness:
  "filter is_sleep (trace (snd (update_dashboard 2 (\<lambda>k. demo_env) initial_state))) =
     [Sleep 10, Sleep 10]"
proof -
  obtain s' passes where
    run: "update_dashboard 2 (\<lambda>k. demo_env) initial_state = (None, s')"
    and len: "length passes = 2"
    and tr: "trace s' = trace initial_state @ concat (map (\<lambda>evs. evs @ [Sleep 10]) passes)"
    and ps: "\<forall>evs \<in> set passes. evs \<noteq> [] \<and> list_all (\<lambda>ev. \<not> is_sleep ev) evs"
    using update_dashboard_sleeps_10_between_passes [of 2 "\<lambda>k. demo_env" initial_state] by blast
  from len obtain p1 p2 where p: "passes = [p1, p2]"
    by (auto simp: length_Suc_conv numeral_2_eq_2)
  have "filter is_sleep p1 = []" "filter is_sleep p2 = []"
    using ps p by (auto simp: list_all_iff filter_empty_conv)
  then have "filter is_sleep (trace s') = [Sleep 10, Sleep 10]"
    by (simp add: tr p initial_state_def)
  then show ?thesis using run by simp
qed

text \<open>
  C6.  As stated the claim fails: nothing checks the configuration.  An empty group and a
  negative batch size are accepted by \<^verbatim>\<open>fetch_all_prices\<close>, which returns the empty list, and
  a timeout of 0 is accepted by \<^verbatim>\<open>fetch_single_price\<close>, which returns the quote
  \<^verbatim>\<open>(None, None)\<close>; none of them raises.
\<close>

theorem refuses_degenerate_configuration_counterexample:
  "fetch_all_prices demo_world [] 5 initial_state = (Inr [], initial_state) \<and>
   fetch_all_prices demo_world demo_assets (- 1) initial_state = (Inr [], initial_state) \<and>
   fst (fetch_single_price (demo_source ''AAA'') ''AAA'' 0 initial_state) = Inr (None, None)"
proof -
  have "fetch_all_prices demo_world [] 5 initial_state = (Inr [], initial_state)"
    by (simp add: fetch_all_prices_def py_range_def)
  moreover have "fetch_all_prices demo_world demo_assets (- 1) initial_state = (Inr [], initial_state)"
    by (simp add: fetch_all_prices_neg)
  moreover have "fst (fetch_single_price (demo_source ''AAA'') ''AAA'' 0 initial_state) = Inr (None, None)"
    by (simp add: fetch_single_price_def wait_for_def)
  ultimately show ?thesis by simp
qed

text \<open>
  C6, amended.  The engine has no configuration check.  \<^verbatim>\<open>main\<close> enters the loop at once,
  with the constants 5 (batch size), 10 (timeout) and 10 (sleep) written in the code, and is
  still running after any number of passes.  \<^verbatim>\<open>fetch_all_prices\<close> raises exactly when the
  batch size is 0 (the \<^verbatim>\<open>ValueError\<close> of \<^verbatim>\<open>range\<close>), for every group, and
  \<^verbatim>\<open>fetch_single_price\<close> returns a quote for every timeout.
\<close>

theorem no_configuration_check:
  "((\<exists>e s'. fetch_all_prices w assets batch_size s = (Inl e, s')) \<longleftrightarrow> batch_size = 0) \<and>
   (\<exists>q s'. fetch_single_price src ticker timeout s = (Inr q, s')) \<and>
   fst (main n envs s) = None"
proof -
  have "(\<exists>e s'. fetch_all_prices w assets batch_size s = (Inl e, s')) \<longleftrightarrow> batch_size = 0"
  proof (cases "batch_size = 0")
    case True
    then show ?thesis by (simp add: fetch_all_prices_zero)
  next
    case False
    from fetch_all_prices_Inr [OF False, of w assets s] show ?thesis
      using False by auto
  qed
  moreover have "\<exists>q s'. fetch_single_price src ticker timeout s = (Inr q, s')"
    by (rule fetch_single_price_Inr)
  moreover have "fst (main n envs s) = None"
    using update_dashboard_run [of n envs s] by (auto simp: main_def)
  ultimately show ?thesis by blast
qed

theorem no_configuration_check_witness:
  "(\<exists>e s'. fetch_all_prices demo_world demo_assets 0 initial_state = (Inl e, s')) \<and>
   \<not> (\<exists>e s'. fetch_all_prices demo_world [] 5 initial_state = (Inl e, s')) \<and>
   fst (main 3 (\<lambda>k. demo_env) initial_state) = None"
  using no_configuration_check [of demo_world demo_assets 0 initial_state]
    no_configuration_check [of demo_world "[]" 5 initial_state _ _ _ 3 "\<lambda>k. demo_env"]
  by simp




end
